theory Spec2Isabelle
  imports Main
begin

section \<open>Strings and paths of the Python standard library\<close>

text \<open>
  Notes.py is glue around \<^verbatim>\<open>os.path\<close>, \<^verbatim>\<open>str\<close> methods, \<^verbatim>\<open>os.walk\<close> and
  \<^verbatim>\<open>subprocess\<close>. Strings are byte strings (\<^typ>\<open>string\<close>); the case mapping and the
  whitespace test act on ASCII. Paths are POSIX paths: the separator is \<open>/\<close>.
\<close>

definition startswith :: "string \<Rightarrow> string \<Rightarrow> bool" where
  "startswith s p = (take (length p) s = p)"

definition endswith :: "string \<Rightarrow> string \<Rightarrow> bool" where
  "endswith s p = (length p \<le> length s \<and> drop (length s - length p) s = p)"

text \<open>\<^verbatim>\<open>s.rfind(c)\<close>: the last index of the character, \<open>-1\<close> when it does not occur.\<close>

definition rfind :: "string \<Rightarrow> char \<Rightarrow> int" where
  "rfind s c =
     (if c \<in> set s
      then int (length s) - 1 - int (length (takeWhile (\<lambda>x. x \<noteq> c) (rev s)))
      else - 1)"

definition lower_char :: "char \<Rightarrow> char" where
  "lower_char c =
     (case map_of (zip ''ABCDEFGHIJKLMNOPQRSTUVWXYZ'' ''abcdefghijklmnopqrstuvwxyz'') c of
        None \<Rightarrow> c
      | Some l \<Rightarrow> l)"

definition lower :: "string \<Rightarrow> string" where
  "lower s = map lower_char s"

definition is_space :: "char \<Rightarrow> bool" where
  "is_space c =
     (c \<in> set [CHR 0x09, CHR 0x0A, CHR 0x0B, CHR 0x0C, CHR 0x0D,
                 CHR 0x1C, CHR 0x1D, CHR 0x1E, CHR 0x1F, CHR '' ''])"

definition rstrip :: "(char \<Rightarrow> bool) \<Rightarrow> string \<Rightarrow> string" where
  "rstrip P s = rev (dropWhile P (rev s))"

definition strip :: "string \<Rightarrow> string" where
  "strip s = rstrip is_space (dropWhile is_space s)"

text \<open>\<^verbatim>\<open>sep.join(xs)\<close>.\<close>

fun str_join :: "string \<Rightarrow> string list \<Rightarrow> string" where
  "str_join sep [] = []"
| "str_join sep [x] = x"
| "str_join sep (x # y # ys) = x @ sep @ str_join sep (y # ys)"

text \<open>
  \<^verbatim>\<open>s.replace(old, new)\<close>: every non-overlapping occurrence of \<open>old\<close>, left to right;
  an empty \<open>old\<close> matches before every character and at the end.
\<close>

function replace_nonempty :: "string \<Rightarrow> string \<Rightarrow> string \<Rightarrow> string" where
  "replace_nonempty s old new =
     (if s = [] \<or> old = [] then s
      else if startswith s old then new @ replace_nonempty (drop (length old) s) old new
      else hd s # replace_nonempty (tl s) old new)"
  by pat_completeness auto
termination
  by (relation "measure (\<lambda>(s, old, new). length s)") auto

definition replace :: "string \<Rightarrow> string \<Rightarrow> string \<Rightarrow> string" where
  "replace s old new =
     (if old = [] then new @ concat (map (\<lambda>c. c # new) s)
      else replace_nonempty s old new)"

text \<open>
  \<^verbatim>\<open>posixpath.join(a, b)\<close>: an absolute \<open>b\<close> replaces \<open>a\<close>; otherwise the two are
  put together with one separator, none when \<open>a\<close> is empty or ends with one.
\<close>

definition path_join :: "string \<Rightarrow> string \<Rightarrow> string" where
  "path_join a b =
     (if startswith b ''/'' then b
      else if a = [] \<or> endswith a ''/'' then a @ b
      else a @ ''/'' @ b)"

text \<open>
  \<^verbatim>\<open>posixpath.splitext(p)\<close>: the extension starts at the last dot of the last path
  component, unless that component has only dots before it (a leading dot does not start
  an extension). The library's loop over the indexes between the separator and the dot
  returns at the first character that is not a dot; \<open>list_ex\<close> says that one exists.
\<close>

definition splitext :: "string \<Rightarrow> string \<times> string" where
  "splitext p =
     (let sepIndex = rfind p (CHR ''/'');
          dotIndex = rfind p (CHR ''.'')
      in if dotIndex > sepIndex \<and>
            list_ex (\<lambda>c. c \<noteq> CHR ''.'')
              (take (nat (dotIndex - (sepIndex + 1))) (drop (nat (sepIndex + 1)) p))
         then (take (nat dotIndex) p, drop (nat dotIndex) p)
         else (p, []))"

section \<open>The outside world: messages, processes, exceptions\<close>

text \<open>
  What a command prints is a \<open>message\<close>, named after the text in the source:
  \<^item> \<open>NoFilesFound\<close>: \<^verbatim>\<open>Error: No files found.\<close>
  \<^item> \<open>NoFileSelected\<close>: \<^verbatim>\<open>Error: No file selected.\<close>
  \<^item> \<open>UnsupportedFileType\<close>: \<^verbatim>\<open>Error: Unsupported file type.\<close>
  \<^item> \<open>NoteAlreadyExists n\<close>: \<^verbatim>\<open>Error: Note 'n' already exists.\<close>
  \<^item> \<open>NoteCreated n d\<close>: \<^verbatim>\<open>Success: Note 'n' created in d.\<close>
  \<^item> \<open>EditorError\<close>: \<^verbatim>\<open>Error opening the note with the text editor: ...\<close>
  \<^item> \<open>ProjectAlreadyExists n\<close>: \<^verbatim>\<open>Error: Project 'n' already exists.\<close>
  \<^item> \<open>TemplateNotFound t\<close>: \<^verbatim>\<open>Error: Template 't' not found.\<close>
  \<^item> \<open>ProjectCreated n t\<close>: \<^verbatim>\<open>Success: Project 'n' created with template 't'.\<close>
  \<^item> \<open>GitInitialized\<close>, \<open>GitInitFailed\<close>: the two messages of \<^verbatim>\<open>git_init\<close>.
\<close>

datatype message =
    NoFilesFound
  | NoFileSelected
  | UnsupportedFileType
  | NoteAlreadyExists string
  | NoteCreated string string
  | EditorError
  | ProjectAlreadyExists string
  | TemplateNotFound string
  | ProjectCreated string string
  | GitInitialized
  | GitInitFailed

text \<open>
  The trace of a command, in order:
  \<^item> \<open>Print m\<close>: a console message;
  \<^item> \<open>Run argv\<close>: \<^verbatim>\<open>subprocess.run(argv)\<close>, the caller waits for the process to exit;
  \<^item> \<open>RunIn cwd argv\<close>: the same with a working directory;
  \<^item> \<open>Popen argv\<close>: \<^verbatim>\<open>subprocess.Popen(argv, ...)\<close> in a group or session of its own, never
    waited for;
  \<^item> \<open>Pipe argv input\<close>: the process is given \<open>input\<close> on its standard input, its standard
    output is captured and the caller waits for it.
\<close>

datatype event =
    Print message
  | Run "string list"
  | RunIn string "string list"
  | Popen "string list"
  | Pipe "string list" string

datatype exn =
    StopIteration
  | FileNotFoundError
  | FileExistsError
  | NotADirectoryError
  | IsADirectoryError

text \<open>
  An external program is opaque: for an argument vector and an input it either cannot be
  started (\<^verbatim>\<open>FileNotFoundError\<close> from \<^verbatim>\<open>subprocess\<close>) or exits with a status and what it
  wrote on its standard output.
\<close>

datatype proc_result = NotStarted | Exited nat string

type_synonym procs = "string list \<Rightarrow> string \<Rightarrow> proc_result"

type_synonym 'a io = "event list \<times> (exn + 'a)"

section \<open>The dispatcher\<close>

text \<open>\<^verbatim>\<open>open_file_with_appropriate_viewer\<close>, Notes.py lines 334 to 344.\<close>

definition open_file_with_appropriate_viewer :: "procs \<Rightarrow> string \<Rightarrow> unit io" where
  "open_file_with_appropriate_viewer procs file_path =
     (let file_extension = snd (splitext file_path)
      in if file_extension = ''.md'' then
           (case procs [''nvim'', file_path] [] of
              NotStarted \<Rightarrow> ([Run [''nvim'', file_path]], Inl FileNotFoundError)
            | Exited st out \<Rightarrow> ([Run [''nvim'', file_path]], Inr ()))
         else if file_extension = ''.pdf'' then
           (case procs [''zathura'', file_path] [] of
              NotStarted \<Rightarrow> ([Popen [''zathura'', file_path]], Inl FileNotFoundError)
            | Exited st out \<Rightarrow> ([Popen [''zathura'', file_path]], Inr ()))
         else ([Print UnsupportedFileType], Inr ()))"

text \<open>The dispatch at the end of the \<^verbatim>\<open>open_file\<close> command, Notes.py lines 50 to 61.\<close>

definition open_file_dispatch :: "procs \<Rightarrow> string \<Rightarrow> unit io" where
  "open_file_dispatch procs selected_file =
     (let file_extension = snd (splitext selected_file)
      in if file_extension = ''.md'' then
           (case procs [''nvim'', selected_file] [] of
              NotStarted \<Rightarrow> ([Run [''nvim'', selected_file]], Inl FileNotFoundError)
            | Exited st out \<Rightarrow> ([Run [''nvim'', selected_file]], Inr ()))
         else if file_extension = ''.pdf'' then
           (case procs [''zathura'', selected_file] [] of
              NotStarted \<Rightarrow> ([Popen [''zathura'', selected_file]], Inl FileNotFoundError)
            | Exited st out \<Rightarrow> ([Popen [''zathura'', selected_file]], Inr ()))
         else if file_extension = ''.epub'' then
           (case procs [''ebook-viewer'', selected_file] [] of
              NotStarted \<Rightarrow> ([Run [''ebook-viewer'', selected_file]], Inl FileNotFoundError)
            | Exited st out \<Rightarrow> ([Run [''ebook-viewer'', selected_file]], Inr ()))
         else ([Print UnsupportedFileType], Inr ()))"

section \<open>The environment and the home directory\<close>

text \<open>
  What the program reads from its process environment: the variables \<^verbatim>\<open>HOME\<close> and
  \<^verbatim>\<open>EDITOR\<close>, and the password database (\<open>pw_dir_uid\<close> is the home directory of the
  current user, \<open>pw_dir_nam\<close> the one of a named user; \<open>None\<close> is the \<^verbatim>\<open>KeyError\<close>).
\<close>

record env =
  HOME :: "string option"
  EDITOR :: "string option"
  pw_dir_uid :: "string option"
  pw_dir_nam :: "string \<Rightarrow> string option"

text \<open>
  \<^verbatim>\<open>posixpath.expanduser(path)\<close>. The path starts with \<open>~\<close> where \<open>i\<close> is computed, so the
  first separator from index 1 on is the first separator of the path.
\<close>

definition expanduser :: "env \<Rightarrow> string \<Rightarrow> string" where
  "expanduser e path =
     (if \<not> startswith path ''~'' then path
      else
        let i = length (takeWhile (\<lambda>c. c \<noteq> CHR ''/'') path);
            userhome =
              (if i = 1
               then (case HOME e of None \<Rightarrow> pw_dir_uid e | Some h \<Rightarrow> Some h)
               else pw_dir_nam e (take (i - 1) (drop 1 path)))
        in case userhome of
             None \<Rightarrow> path
           | Some h \<Rightarrow>
               (let r = rstrip (\<lambda>c. c = CHR ''/'') h @ drop i path
                in if r = [] then ''/'' else r))"

section \<open>The interactive selector adapters\<close>

text \<open>
  \<^verbatim>\<open>fzf_select\<close>, Notes.py lines 75 to 102. \<^verbatim>\<open>subprocess.check_output\<close> raises
  \<^verbatim>\<open>CalledProcessError\<close> on a non-zero exit status, which the function catches and turns
  into \<^verbatim>\<open>None\<close>. \<^verbatim>\<open>next\<close> is called without a default: when no file matches it raises
  \<^verbatim>\<open>StopIteration\<close>, which nothing catches. After the viewer the function reaches its end,
  and a Python function that reaches its end returns \<^verbatim>\<open>None\<close>.
\<close>

definition fzf_select :: "env \<Rightarrow> procs \<Rightarrow> string list \<Rightarrow> (string option) io" where
  "fzf_select e procs files =
     (let file_names = map (\<lambda>file. replace file (expanduser e ''~/GoogleDrive/'') []) files;
          fzf_input = str_join [CHR 0x0A] file_names;
          fzf_cmd = [''fzf'']
      in case procs fzf_cmd fzf_input of
           NotStarted \<Rightarrow> ([Pipe fzf_cmd fzf_input], Inl FileNotFoundError)
         | Exited status out \<Rightarrow>
             if status \<noteq> 0 then ([Pipe fzf_cmd fzf_input], Inr None)
             else
               (let selected_file_name = strip out
                in case find (\<lambda>file. endswith file selected_file_name) files of
                     None \<Rightarrow> ([Pipe fzf_cmd fzf_input], Inl StopIteration)
                   | Some selected_file \<Rightarrow>
                       (case open_file_with_appropriate_viewer procs selected_file of
                          (evs, Inl x) \<Rightarrow> (Pipe fzf_cmd fzf_input # evs, Inl x)
                        | (evs, Inr u) \<Rightarrow> (Pipe fzf_cmd fzf_input # evs, Inr None))))"

text \<open>
  \<^verbatim>\<open>fzf_select_project\<close>, Notes.py lines 316 to 331. \<^verbatim>\<open>Popen\<close> and \<^verbatim>\<open>communicate\<close> never
  raise \<^verbatim>\<open>CalledProcessError\<close>: the exit status is not looked at, and the result is the
  stripped standard output whatever the status.
\<close>

definition fzf_select_project :: "procs \<Rightarrow> string list \<Rightarrow> (string option) io" where
  "fzf_select_project procs items =
     (let fzf_cmd = [''fzf''];
          fzf_input = str_join [CHR 0x0A] items
      in case procs fzf_cmd fzf_input of
           NotStarted \<Rightarrow> ([Pipe fzf_cmd fzf_input], Inl FileNotFoundError)
         | Exited status out \<Rightarrow> ([Pipe fzf_cmd fzf_input], Inr (Some (strip out))))"

text \<open>Python's truth value of an optional string: \<^verbatim>\<open>None\<close> and \<^verbatim>\<open>""\<close> are false.\<close>

fun truthy :: "string option \<Rightarrow> bool" where
  "truthy None = False"
| "truthy (Some s) = (s \<noteq> [])"

section \<open>The directory scanner\<close>

text \<open>
  What \<^verbatim>\<open>os.walk\<close> sees. An entry of a directory is a regular file (or a link to one),
  another thing that is not a directory (a FIFO, a socket, a device, a dangling link), a
  directory with its entries in the order \<^verbatim>\<open>scandir\<close> gives them, a symbolic link to a
  directory, or a directory that cannot be read.
\<close>

datatype node =
    Regular
  | Special
  | Dir "(string \<times> node) list"
  | DirLink
  | Unreadable

fun is_dir :: "node \<Rightarrow> bool" where
  "is_dir Regular = False"
| "is_dir Special = False"
| "is_dir (Dir es) = True"
| "is_dir DirLink = True"
| "is_dir Unreadable = True"

text \<open>
  \<^verbatim>\<open>os.walk(top)\<close>, top down, without following links and without an error handler: a
  directory gives its triple (path, names of the directories, names of the rest), then the
  walks of its directories in order. \<^verbatim>\<open>scandir\<close> raising \<^verbatim>\<open>OSError\<close> (a path that is not
  there, is not a directory or cannot be read) is swallowed by \<^verbatim>\<open>os.walk\<close> and gives
  nothing; a link to a directory is named among the directories and not entered.
\<close>

fun walk :: "string \<Rightarrow> node \<Rightarrow> (string \<times> string list \<times> string list) list" where
  "walk root (Dir es) =
     (root, map fst (filter (\<lambda>p. is_dir (snd p)) es),
           map fst (filter (\<lambda>p. \<not> is_dir (snd p)) es))
     # concat (map (\<lambda>p. walk (path_join root (fst p)) (snd p))
                   (filter (\<lambda>p. is_dir (snd p)) es))"
| "walk root Regular = []"
| "walk root Special = []"
| "walk root DirLink = []"
| "walk root Unreadable = []"

text \<open>
  The file system under the scanner: what each path given to \<^verbatim>\<open>os.walk\<close> resolves to
  (links followed, so never \<open>DirLink\<close>), \<open>None\<close> when nothing is there.
\<close>

type_synonym dirtree = "string \<Rightarrow> node option"

definition os_walk :: "dirtree \<Rightarrow> string \<Rightarrow> (string \<times> string list \<times> string list) list" where
  "os_walk tree directory =
     (case tree directory of None \<Rightarrow> [] | Some nd \<Rightarrow> walk directory nd)"

text \<open>\<^verbatim>\<open>get_file_list\<close>, Notes.py lines 64 to 72: two nested loops appending to \<open>files\<close>.\<close>

definition get_file_list :: "dirtree \<Rightarrow> string \<Rightarrow> string set \<Rightarrow> string list" where
  "get_file_list tree directory allowed_file_types =
     fold (\<lambda>(root, dirnames, filenames) files.
             fold (\<lambda>filename files.
                     if lower (snd (splitext filename)) \<in> allowed_file_types
                     then files @ [path_join root filename]
                     else files)
                  filenames files)
          (os_walk tree directory) []"

section \<open>The open command\<close>

text \<open>
  \<^verbatim>\<open>open_file\<close>, Notes.py lines 27 to 61. The name of the university folder ends with
  the two bytes of \<open>a\<close> with a grave accent in UTF-8.
\<close>

definition open_file :: "env \<Rightarrow> procs \<Rightarrow> dirtree \<Rightarrow> string \<Rightarrow> bool \<Rightarrow> bool \<Rightarrow> unit io" where
  "open_file e procs tree directory pdf_only uni =
     (let directory = expanduser e directory;
          allowed_file_types =
            (if pdf_only then {''.pdf''} else {''.pdf'', ''.epub'', ''.md''});
          directory =
            (if uni then path_join directory (''Universit'' @ [CHR 0xC3, CHR 0xA0])
             else directory);
          files = get_file_list tree directory allowed_file_types
      in if files = [] then ([Print NoFilesFound], Inr ())
         else
           (case fzf_select e procs files of
              (evs, Inl x) \<Rightarrow> (evs, Inl x)
            | (evs, Inr selected_file) \<Rightarrow>
                (case selected_file of
                   None \<Rightarrow> (evs @ [Print NoFileSelected], Inr ())
                 | Some f \<Rightarrow>
                     if \<not> truthy (Some f) then (evs @ [Print NoFileSelected], Inr ())
                     else
                       (case open_file_dispatch procs f of
                          (evs', r) \<Rightarrow> (evs @ evs', r)))))"

section \<open>The file system the commands write to\<close>

text \<open>
  The store maps a path, as the program spells it, to what is there: a file with its
  content or a directory. The working directory (the empty directory name) and the root
  are always there. Only the commands of this program change the store: what an editor or
  \<^verbatim>\<open>git\<close> does to it is outside the model.
\<close>

datatype fsobj = FileObj string | DirObj

type_synonym filesystem = "string \<Rightarrow> fsobj option"

definition path_exists :: "filesystem \<Rightarrow> string \<Rightarrow> bool" where
  "path_exists fs p = (fs p \<noteq> None)"

text \<open>\<^verbatim>\<open>posixpath.split(p)\<close> and \<^verbatim>\<open>posixpath.dirname(p)\<close>.\<close>

definition path_split :: "string \<Rightarrow> string \<times> string" where
  "path_split p =
     (let i = nat (rfind p (CHR ''/'') + 1);
          head = take i p;
          tail = drop i p
      in (if head \<noteq> [] \<and> list_ex (\<lambda>c. c \<noteq> CHR ''/'') head
          then rstrip (\<lambda>c. c = CHR ''/'') head else head,
          tail))"

definition dirname :: "string \<Rightarrow> string" where
  "dirname p = fst (path_split p)"

definition is_directory :: "filesystem \<Rightarrow> string \<Rightarrow> bool" where
  "is_directory fs d = (list_all (\<lambda>c. c = CHR ''/'') d \<or> fs d = Some DirObj)"

text \<open>
  \<^verbatim>\<open>open(p, "w")\<close>, one \<^verbatim>\<open>write\<close> and the close of the \<^verbatim>\<open>with\<close> block: the file is
  created or truncated; the directory that holds it must be there.
\<close>

definition write_file :: "filesystem \<Rightarrow> string \<Rightarrow> string \<Rightarrow> exn + filesystem" where
  "write_file fs p content =
     (if p = [] then Inl FileNotFoundError
      else if fs p = Some DirObj then Inl IsADirectoryError
      else if \<not> is_directory fs (dirname p) then
        (if path_exists fs (dirname p) then Inl NotADirectoryError else Inl FileNotFoundError)
      else Inr (fs(p \<mapsto> FileObj content)))"








section \<open>Note creation\<close>

text \<open>
  \<^verbatim>\<open>create\<close>, Notes.py lines 113 to 134. The result is the store, the trace and the
  exception that left the command, if one did.
\<close>

definition note_path :: "env \<Rightarrow> string \<Rightarrow> string \<Rightarrow> string" where
  "note_path e note_name directory = path_join (expanduser e directory) (note_name @ ''.md'')"

definition editor :: "env \<Rightarrow> string" where
  "editor e = (case EDITOR e of None \<Rightarrow> ''vi'' | Some ed \<Rightarrow> ed)"

definition create ::
  "env \<Rightarrow> procs \<Rightarrow> filesystem \<Rightarrow> string \<Rightarrow> string \<Rightarrow> filesystem \<times> unit io" where
  "create e procs fs note_name directory =
     (let directory = expanduser e directory;
          note_path = path_join directory (note_name @ ''.md'')
      in if path_exists fs note_path then (fs, [Print (NoteAlreadyExists note_name)], Inr ())
         else
           (case write_file fs note_path (''# '' @ note_name) of
              Inl x \<Rightarrow> (fs, [], Inl x)
            | Inr fs' \<Rightarrow>
                (case procs [editor e, note_path] [] of
                   NotStarted \<Rightarrow>
                     (fs', [Print (NoteCreated note_name directory), Run [editor e, note_path]],
                      Inl FileNotFoundError)
                 | Exited status out \<Rightarrow>
                     if status \<noteq> 0
                     then (fs', [Print (NoteCreated note_name directory),
                                 Run [editor e, note_path], Print EditorError], Inr ())
                     else (fs', [Print (NoteCreated note_name directory),
                                 Run [editor e, note_path]], Inr ()))))"

section \<open>Project scaffolding\<close>







section \<open>What is under a directory\<close>

text \<open>
  Every entry under a directory that is not itself a directory, with its path, its name
  and what it is. Directories are entered; links to directories and directories that
  cannot be read are not.
\<close>

fun entries_under :: "string \<Rightarrow> node \<Rightarrow> (string \<times> string \<times> node) list" where
  "entries_under root (Dir es) =
     concat (map (\<lambda>p. if is_dir (snd p)
                       then entries_under (path_join root (fst p)) (snd p)
                       else [(path_join root (fst p), fst p, snd p)]) es)"
| "entries_under root Regular = []"
| "entries_under root Special = []"
| "entries_under root DirLink = []"
| "entries_under root Unreadable = []"

definition under :: "dirtree \<Rightarrow> string \<Rightarrow> (string \<times> string \<times> node) list" where
  "under tree directory =
     (case tree directory of None \<Rightarrow> [] | Some nd \<Rightarrow> entries_under directory nd)"

text \<open>
  The scan as the specification words it: the regular files under the directory whose
  extension, compared without regard to case, belongs to the set.
\<close>

definition scan_spec :: "dirtree \<Rightarrow> string \<Rightarrow> string set \<Rightarrow> string set" where
  "scan_spec tree directory extensions =
     {path. \<exists>name. (path, name, Regular) \<in> set (under tree directory)
                   \<and> (\<exists>x \<in> extensions. lower x = lower (snd (splitext name)))}"

text \<open>A directory \<^verbatim>\<open>/d\<close> with a regular file \<^verbatim>\<open>a.PDF\<close> and a FIFO \<^verbatim>\<open>pipe.md\<close>.\<close>

definition example_tree :: dirtree where
  "example_tree =
     (\<lambda>p. if p = ''/d'' then Some (Dir [(''a.PDF'', Regular), (''pipe.md'', Special)])
          else None)"

section \<open>A concrete environment\<close>

text \<open>A user whose home directory is \<^verbatim>\<open>/home/u\<close> and who has set no editor.\<close>

definition example_env :: env where
  "example_env =
     \<lparr>HOME = Some ''/home/u'', EDITOR = None, pw_dir_uid = None, pw_dir_nam = (\<lambda>name. None)\<rparr>"

section \<open>Properties of the dispatcher\<close>

text \<open>
  C7. A path whose extension is none of \<^verbatim>\<open>.md\<close>, \<^verbatim>\<open>.pdf\<close> and \<^verbatim>\<open>.epub\<close> gets the
  message about an unsupported file type and nothing else at both dispatch sites: the
  trace has no process in it.
\<close>

theorem unsupported_extension_launches_nothing:
  assumes "snd (splitext path) \<notin> {''.md'', ''.pdf'', ''.epub''}"
  shows "open_file_dispatch procs path = ([Print UnsupportedFileType], Inr ())
       \<and> open_file_with_appropriate_viewer procs path = ([Print UnsupportedFileType], Inr ())"
  using assms
  by (simp add: open_file_dispatch_def open_file_with_appropriate_viewer_def Let_def)

theorem unsupported_extension_witness:
  "snd (splitext ''notes.xyz'') \<notin> {''.md'', ''.pdf'', ''.epub''}
   \<and> open_file_dispatch (\<lambda>argv input. Exited 0 []) ''notes.xyz''
       = ([Print UnsupportedFileType], Inr ())
   \<and> open_file_with_appropriate_viewer (\<lambda>argv input. Exited 0 []) ''notes.xyz''
       = ([Print UnsupportedFileType], Inr ())"
proof -
  have ext: "snd (splitext ''notes.xyz'') \<notin> {''.md'', ''.pdf'', ''.epub''}"
    by (simp add: splitext_def rfind_def)
  from unsupported_extension_launches_nothing [OF ext, of "\<lambda>argv input. Exited 0 []"] ext
  show ?thesis by simp
qed

text \<open>
  C4. The dispatch of the \<^verbatim>\<open>open_file\<close> command runs the e-book viewer on
  \<^verbatim>\<open>book.epub\<close> and waits for it; \<^verbatim>\<open>open_file_with_appropriate_viewer\<close> has no branch
  for the extension and prints the message about an unsupported file type, starting
  nothing.
\<close>

theorem epub_unsupported_by_viewer:
  "open_file_with_appropriate_viewer procs ''book.epub'' = ([Print UnsupportedFileType], Inr ())
   \<and> fst (open_file_dispatch procs ''book.epub'') = [Run [''ebook-viewer'', ''book.epub'']]"
  by (simp add: open_file_with_appropriate_viewer_def open_file_dispatch_def splitext_def
      rfind_def Let_def split: proc_result.splits)

section \<open>Properties of the selector adapters\<close>

text \<open>Whatever happens, \<^verbatim>\<open>fzf_select\<close> hands no path back to its caller.\<close>

lemma fzf_select_result: "snd (fzf_select e procs files) = Inr r \<Longrightarrow> r = None"
  by (auto simp: fzf_select_def Let_def
      split: proc_result.splits if_splits option.splits prod.splits sum.splits)

text \<open>
  C1. The selector exits with status 0 and the label \<^verbatim>\<open>b.md\<close>; the second candidate is
  the first whose path ends with it. \<^verbatim>\<open>fzf_select\<close> opens that file in the editor and
  returns \<^verbatim>\<open>None\<close>, not the path.
\<close>

theorem fzf_select_returns_no_path:
  "fzf_select example_env (\<lambda>argv input. Exited 0 ''b.md'')
       [''/home/u/GoogleDrive/a.pdf'', ''/home/u/GoogleDrive/b.md'']
   = ([Pipe [''fzf''] (''a.pdf'' @ [CHR 0x0A] @ ''b.md''),
       Run [''nvim'', ''/home/u/GoogleDrive/b.md'']],
      Inr None)"
  by (simp add: fzf_select_def example_env_def expanduser_def startswith_def rstrip_def
      replace_def strip_def is_space_def endswith_def
      open_file_with_appropriate_viewer_def splitext_def rfind_def)

text \<open>
  On an exit status other than 0, \<^verbatim>\<open>fzf_select\<close> returns \<^verbatim>\<open>None\<close> and starts no
  viewer: \<^verbatim>\<open>check_output\<close> raises and the function catches it.
\<close>

lemma fzf_select_cancelled:
  assumes "procs [''fzf'']
             (str_join [CHR 0x0A]
                (map (\<lambda>file. replace file (expanduser e ''~/GoogleDrive/'') []) files))
           = Exited status out"
    and "status \<noteq> 0"
  shows "fzf_select e procs files
         = ([Pipe [''fzf'']
               (str_join [CHR 0x0A]
                  (map (\<lambda>file. replace file (expanduser e ''~/GoogleDrive/'') []) files))],
            Inr None)"
  using assms by (simp add: fzf_select_def Let_def)

text \<open>
  \<^verbatim>\<open>fzf_select_project\<close> returns what the selector wrote, stripped, whatever the exit
  status: a selector that started never makes it raise, and never makes it return
  \<^verbatim>\<open>None\<close>.
\<close>

lemma fzf_select_project_result:
  assumes "procs [''fzf''] (str_join [CHR 0x0A] items) = Exited status out"
  shows "fzf_select_project procs items
         = ([Pipe [''fzf''] (str_join [CHR 0x0A] items)], Inr (Some (strip out)))"
  using assms by (simp add: fzf_select_project_def Let_def)

text \<open>
  C8. The selector exits with status 1 after writing \<^verbatim>\<open>notes\<close> (what fzf does with
  \<^verbatim>\<open>--print-query\<close> in its default options when the query matches nothing).
  \<^verbatim>\<open>fzf_select\<close> returns \<^verbatim>\<open>None\<close>, as the claim says. \<^verbatim>\<open>fzf_select_project\<close> returns
  \<^verbatim>\<open>notes\<close>, which its caller takes for a selection: \<^verbatim>\<open>Popen\<close> and \<^verbatim>\<open>communicate\<close>
  never raise \<^verbatim>\<open>CalledProcessError\<close>, so the handler that returns \<^verbatim>\<open>None\<close> is never
  reached.
\<close>

theorem fzf_select_project_ignores_exit_status:
  "snd (fzf_select example_env (\<lambda>argv input. Exited 1 ''notes'') [''thesis'', ''garden''])
     = Inr None
   \<and> fzf_select_project (\<lambda>argv input. Exited 1 ''notes'') [''thesis'', ''garden'']
     = ([Pipe [''fzf''] (''thesis'' @ [CHR 0x0A] @ ''garden'')], Inr (Some ''notes''))
   \<and> truthy (Some ''notes'')"
  by (simp add: fzf_select_def fzf_select_project_def strip_def rstrip_def is_space_def)

text \<open>
  C10. The selector exits with status 0 and a label that is not empty, and no candidate
  ends with the label: \<^verbatim>\<open>next\<close> raises \<^verbatim>\<open>StopIteration\<close>, and it leaves \<^verbatim>\<open>fzf_select\<close>.
\<close>

theorem unmatched_label_raises_StopIteration:
  assumes "procs [''fzf'']
             (str_join [CHR 0x0A]
                (map (\<lambda>file. replace file (expanduser e ''~/GoogleDrive/'') []) files))
           = Exited 0 out"
    and "strip out \<noteq> []"
    and "\<forall>file \<in> set files. \<not> endswith file (strip out)"
  shows "snd (fzf_select e procs files) = Inl StopIteration"
proof -
  from assms(3) have "find (\<lambda>file. endswith file (strip out)) files = None"
    by (simp add: find_None_iff)
  with assms(1) show ?thesis
    by (simp add: fzf_select_def Let_def)
qed

theorem unmatched_label_witness:
  "strip ''zzz'' \<noteq> []
   \<and> \<not> endswith ''/home/u/GoogleDrive/a.pdf'' (strip ''zzz'')
   \<and> snd (fzf_select example_env (\<lambda>argv input. Exited 0 ''zzz'') [''/home/u/GoogleDrive/a.pdf''])
       = Inl StopIteration"
proof -
  have label: "strip ''zzz'' = ''zzz''"
    by (simp add: strip_def rstrip_def is_space_def)
  have unmatched: "\<forall>file \<in> set [''/home/u/GoogleDrive/a.pdf'']. \<not> endswith file (strip ''zzz'')"
    by (simp add: label endswith_def)
  from unmatched_label_raises_StopIteration
    [of "\<lambda>argv input. Exited 0 ''zzz''" example_env "[''/home/u/GoogleDrive/a.pdf'']" "''zzz''"]
    label unmatched
  show ?thesis by simp
qed

section \<open>Properties of the scanner\<close>

text \<open>The two loops of \<^verbatim>\<open>get_file_list\<close> append, so they are a comprehension over the walk.\<close>

lemma fold_append_matching:
  "fold (\<lambda>x acc. if P x then acc @ [g x] else acc) xs acc = acc @ map g (filter P xs)"
  by (induction xs arbitrary: acc) auto

lemma fold_append_each:
  "fold (\<lambda>(root, dirnames, filenames) acc. acc @ F root filenames) ts acc
   = acc @ concat (map (\<lambda>(root, dirnames, filenames). F root filenames) ts)"
  by (induction ts arbitrary: acc) (auto split: prod.splits)

lemma get_file_list_comprehension:
  "get_file_list tree directory E =
     concat (map (\<lambda>(root, dirnames, filenames).
                    map (path_join root)
                        (filter (\<lambda>filename. lower (snd (splitext filename)) \<in> E) filenames))
                 (os_walk tree directory))"
proof -
  have inner: "(\<lambda>(root, dirnames, filenames) files.
             fold (\<lambda>filename files.
                     if lower (snd (splitext filename)) \<in> E
                     then files @ [path_join root filename]
                     else files) filenames files)
      = (\<lambda>(root, dirnames, filenames) files.
             files @ map (path_join root)
                        (filter (\<lambda>filename. lower (snd (splitext filename)) \<in> E) filenames))"
    by (simp add: fold_append_matching fun_eq_iff)
  show ?thesis
    unfolding get_file_list_def inner
    by (simp add: fold_append_each)
qed

text \<open>
  The names the walk lists outside the directories, filtered and joined to their roots,
  are the entries under the directory that pass the filter.
\<close>

lemma walk_matching:
  "set (concat (map (\<lambda>(root, dirnames, filenames). map (path_join root) (filter Q filenames))
                    (walk root nd)))
   = {path. \<exists>name k. (path, name, k) \<in> set (entries_under root nd) \<and> Q name}"
proof (induction root nd rule: walk.induct)
  case (1 root es)
  let ?G = "\<lambda>(root, dirnames, filenames). map (path_join root) (filter Q filenames)"
  have IH: "set (concat (map ?G (walk (path_join root (fst p)) (snd p))))
      = {path. \<exists>name k. (path, name, k) \<in> set (entries_under (path_join root (fst p)) (snd p))
                         \<and> Q name}"
    if "p \<in> set es" "is_dir (snd p)" for p
    using 1 that by simp
  have here: "set (map (path_join root)
                 (filter Q (map fst (filter (\<lambda>p. \<not> is_dir (snd p)) es))))
      = {path. \<exists>p \<in> set es. \<not> is_dir (snd p) \<and> path = path_join root (fst p) \<and> Q (fst p)}"
    by auto
  have below: "set (concat (map (\<lambda>p. concat (map ?G (walk (path_join root (fst p)) (snd p))))
                 (filter (\<lambda>p. is_dir (snd p)) es)))
      = {path. \<exists>p \<in> set es. is_dir (snd p) \<and>
            (\<exists>name k. (path, name, k) \<in> set (entries_under (path_join root (fst p)) (snd p))
                      \<and> Q name)}"
    using IH by auto
  have lhs: "set (concat (map ?G (walk root (Dir es))))
      = {path. \<exists>p \<in> set es. \<not> is_dir (snd p) \<and> path = path_join root (fst p) \<and> Q (fst p)}
      \<union> {path. \<exists>p \<in> set es. is_dir (snd p) \<and>
            (\<exists>name k. (path, name, k) \<in> set (entries_under (path_join root (fst p)) (snd p))
                      \<and> Q name)}"
    using here below by (simp add: map_concat comp_def)
  have rhs: "{path. \<exists>name k. (path, name, k) \<in> set (entries_under root (Dir es)) \<and> Q name}
      = {path. \<exists>p \<in> set es. \<not> is_dir (snd p) \<and> path = path_join root (fst p) \<and> Q (fst p)}
      \<union> {path. \<exists>p \<in> set es. is_dir (snd p) \<and>
            (\<exists>name k. (path, name, k) \<in> set (entries_under (path_join root (fst p)) (snd p))
                      \<and> Q name)}"
    by (auto split: if_splits) force+
  from lhs rhs show ?case by simp
qed simp_all

text \<open>The same for the walk of a path, which may lead nowhere.\<close>

lemma os_walk_matching:
  "set (concat (map (\<lambda>(root, dirnames, filenames). map (path_join root) (filter Q filenames))
                    (os_walk tree directory)))
   = {path. \<exists>name k. (path, name, k) \<in> set (under tree directory) \<and> Q name}"
proof (cases "tree directory")
  case None
  then show ?thesis
    by (simp add: os_walk_def under_def)
next
  case (Some nd)
  then have walked: "os_walk tree directory = walk directory nd"
    and entries: "under tree directory = entries_under directory nd"
    by (simp_all add: os_walk_def under_def)
  show ?thesis
    unfolding walked entries by (rule walk_matching)
qed

text \<open>
  C2, as the code has it. \<^verbatim>\<open>get_file_list\<close> returns exactly the entries under the
  directory that are not directories (regular files, and FIFOs, sockets and dangling links
  as well) and whose extension, put in lower case, is a member of the set as it was given.
\<close>

theorem scan_returns_matching_non_directories:
  "set (get_file_list tree directory E)
   = {path. \<exists>name k. (path, name, k) \<in> set (under tree directory)
                     \<and> lower (snd (splitext name)) \<in> E}"
proof -
  have "set (get_file_list tree directory E)
      = set (concat (map (\<lambda>(root, dirnames, filenames).
                            map (path_join root)
                                (filter (\<lambda>filename. lower (snd (splitext filename)) \<in> E)
                                        filenames))
                         (os_walk tree directory)))"
    by (simp only: get_file_list_comprehension)
  also have "\<dots> = {path. \<exists>name k. (path, name, k) \<in> set (under tree directory)
                           \<and> lower (snd (splitext name)) \<in> E}"
    by (rule os_walk_matching)
  finally show ?thesis .
qed

text \<open>
  C2, as the specification words it, fails: with the extensions \<^verbatim>\<open>.PDF\<close> and \<^verbatim>\<open>.md\<close>
  the regular file \<^verbatim>\<open>a.PDF\<close> is left out, because \<^verbatim>\<open>.pdf\<close> is not a member of the
  set, and the FIFO \<^verbatim>\<open>pipe.md\<close> is returned.
\<close>

theorem scan_differs_from_spec:
  "get_file_list example_tree ''/d'' {''.PDF'', ''.md''} = [''/d/pipe.md'']
   \<and> scan_spec example_tree ''/d'' {''.PDF'', ''.md''} = {''/d/a.PDF''}"
proof -
  have code: "get_file_list example_tree ''/d'' {''.PDF'', ''.md''} = [''/d/pipe.md'']"
    by (simp add: get_file_list_def os_walk_def example_tree_def splitext_def rfind_def
        lower_def lower_char_def path_join_def startswith_def endswith_def)
  have spec: "scan_spec example_tree ''/d'' {''.PDF'', ''.md''} = {''/d/a.PDF''}"
    by (auto simp: scan_spec_def under_def example_tree_def splitext_def rfind_def
        lower_def lower_char_def path_join_def startswith_def endswith_def)
  from code spec show ?thesis by simp
qed

text \<open>
  Where every entry that is not a directory is a regular file and the extensions are
  given in lower case, the code and the specification agree.
\<close>

lemma scan_agrees_with_spec:
  assumes "\<forall>t \<in> set (under tree directory). snd (snd t) = Regular"
    and "\<forall>x \<in> E. lower x = x"
  shows "set (get_file_list tree directory E) = scan_spec tree directory E"
proof -
  have member: "(\<exists>x \<in> E. lower x = lower ext) \<longleftrightarrow> lower ext \<in> E" for ext
    using assms(2) by metis
  have "set (get_file_list tree directory E)
      = {path. \<exists>name k. (path, name, k) \<in> set (under tree directory)
                        \<and> lower (snd (splitext name)) \<in> E}"
    by (simp only: get_file_list_comprehension os_walk_matching)
  also have "\<dots> = scan_spec tree directory E"
    using assms(1) unfolding scan_spec_def member by force
  finally show ?thesis .
qed

text \<open>
  C9. A directory that is not there, and a directory with nothing in it, scan to the empty
  list. \<^verbatim>\<open>get_file_list\<close> has no failing result: \<^verbatim>\<open>os.walk\<close> swallows the errors of
  \<^verbatim>\<open>scandir\<close>, and nothing else in the loops can raise.
\<close>

theorem scan_empty_or_missing_is_empty:
  assumes "tree directory = None \<or> tree directory = Some (Dir [])"
  shows "get_file_list tree directory allowed_file_types = []"
  using assms by (auto simp: get_file_list_def os_walk_def)

theorem scan_empty_or_missing_witness:
  "get_file_list (\<lambda>p. None) ''/nowhere'' {''.pdf''} = []
   \<and> get_file_list (\<lambda>p. if p = ''/empty'' then Some (Dir []) else None) ''/empty'' {''.pdf''}
       = []"
  using scan_empty_or_missing_is_empty [of "\<lambda>p. None" "''/nowhere''" "{''.pdf''}"]
        scan_empty_or_missing_is_empty
          [of "\<lambda>p. if p = ''/empty'' then Some (Dir []) else None" "''/empty''" "{''.pdf''}"]
  by simp

section \<open>The empty candidate list\<close>

text \<open>
  C3, as the specification words it, fails: \<^verbatim>\<open>fzf_select\<close> has no test for an empty
  list, and on the empty list it still runs the selector, with nothing on its input.
\<close>

theorem fzf_select_empty_invokes_selector:
  "Pipe [''fzf''] [] \<in> set (fst (fzf_select example_env (\<lambda>argv input. Exited 130 []) []))"
  by (simp add: fzf_select_def)

text \<open>
  C3, as the code has it. On the empty list \<^verbatim>\<open>fzf_select\<close> runs the selector and, when it
  exits with a status other than 0, returns \<^verbatim>\<open>None\<close>. The test for the empty list is in
  the caller: when the scan finds nothing, the \<^verbatim>\<open>open_file\<close> command prints that no files
  were found and stops, and no selector runs.
\<close>

theorem empty_candidates_guarded_by_caller:
  assumes "procs [''fzf''] [] = Exited status out" and "status \<noteq> 0"
    and "get_file_list tree
           (if uni then path_join (expanduser e directory) (''Universit'' @ [CHR 0xC3, CHR 0xA0])
            else expanduser e directory)
           (if pdf_only then {''.pdf''} else {''.pdf'', ''.epub'', ''.md''}) = []"
  shows "fzf_select e procs [] = ([Pipe [''fzf''] []], Inr None)
       \<and> open_file e procs' tree directory pdf_only uni = ([Print NoFilesFound], Inr ())"
  using assms by (simp add: fzf_select_def open_file_def Let_def)

theorem empty_candidates_witness:
  "fzf_select example_env (\<lambda>argv input. Exited 130 []) [] = ([Pipe [''fzf''] []], Inr None)
   \<and> open_file example_env (\<lambda>argv input. Exited 0 ''a.pdf'') (\<lambda>p. None) ''~/GoogleDrive''
        False False
     = ([Print NoFilesFound], Inr ())"
  using empty_candidates_guarded_by_caller
    [where procs = "\<lambda>argv input. Exited 130 []" and status = 130 and out = "[]"
       and tree = "\<lambda>p. None" and uni = False and pdf_only = False and e = example_env
       and directory = "''~/GoogleDrive''" and procs' = "\<lambda>argv input. Exited 0 ''a.pdf''"]
  by (simp add: get_file_list_def os_walk_def)

section \<open>Properties of note creation\<close>


text \<open>A note that is there is reported and left alone, whatever its content.\<close>

lemma create_existing_note:
  assumes "path_exists fs (note_path e name directory)"
  shows "create e procs fs name directory = (fs, [Print (NoteAlreadyExists name)], Inr ())"
  using assms by (simp add: create_def note_path_def Let_def)




section \<open>Properties of project scaffolding\<close>




end
